theory Spec2Isabelle
  imports Complex_Main "HOL-Library.Multiset"
begin

section \<open>Data model (types.ts)\<close>

text \<open>
  JavaScript numbers are modelled as exact reals: every arithmetic step of the source is
  kept, in the source's order, and only the rounding of IEEE doubles is left out.
  The optional field \<open>notes\<close> is the option \<open>item_notes\<close>, and \<open>text\<close> of a chat message is \<open>msg_text\<close> (both names are Isar keywords). Field names are the source's; where two
  interfaces share a field name the earlier record is addressed by its qualified name
  (\<open>ReceiptItem.price\<close>, \<open>ReceiptData.subtotal\<close>).
\<close>

record ReceiptItem =
  item_name :: string
  quantity :: real
  price :: real
  confidence_score :: real
  item_notes :: "string option"

record ReceiptData =
  items :: "ReceiptItem list"
  subtotal :: real
  tax :: real
  tip :: real
  total :: real

record AssignedItem =
  item_name :: string
  price :: real

record PersonSplit =
  person_name :: string
  items :: "AssignedItem list"
  subtotal :: real
  tax :: real
  tip :: real
  total :: real

type_synonym BillSplit = "PersonSplit list"

datatype Sender = user | bot | system

record ChatMessage =
  sender :: Sender
  msg_text :: string

section \<open>Allocation: recalculateBillSplit\<close>

text \<open>
  The callback of \<open>currentSplit.map\<close> in \<open>recalculateBillSplit\<close>. The source's
  \<open>reduce((acc, item) => acc + item.price, 0)\<close> is a left fold from 0.
\<close>

definition recalculatePerson :: "ReceiptData \<Rightarrow> PersonSplit \<Rightarrow> PersonSplit" where
  "recalculatePerson data person =
     (let subtotal' = foldl (\<lambda>acc item. acc + price item) 0 (items person);
          taxRatio = subtotal' / ReceiptData.subtotal data;
          tax' = ReceiptData.tax data * taxRatio;
          tip' = ReceiptData.tip data * taxRatio;
          total' = subtotal' + tax' + tip'
      in person\<lparr>subtotal := subtotal', tax := tax', tip := tip', total := total'\<rparr>)"

text \<open>
  \<open>data\<close> is the receipt the enclosing component closes over; the guard
  \<open>!data || data.subtotal === 0\<close> returns the argument itself.
\<close>

definition recalculateBillSplit :: "ReceiptData option \<Rightarrow> BillSplit \<Rightarrow> BillSplit" where
  "recalculateBillSplit data currentSplit =
     (case data of
        None \<Rightarrow> currentSplit
      | Some d \<Rightarrow>
          if ReceiptData.subtotal d = 0 then currentSplit
          else map (recalculatePerson d) currentSplit)"

section \<open>Application state\<close>

text \<open>
  The React state the handlers read and write: the five \<open>useState\<close> cells of
  \<open>App\<close> with \<open>isReceiptEditing\<close>, the draft \<open>editingReceiptData\<close> of
  \<open>ReceiptDisplay\<close> and the text box \<open>input\<close> of \<open>ChatPanel\<close>. A handler is a
  function from the state to the state after its setters have been applied.
\<close>

record AppState =
  receiptData :: "ReceiptData option"
  billSplit :: BillSplit
  chatMessages :: "ChatMessage list"
  isLoading :: bool
  error :: "string option"
  isReceiptEditing :: bool
  editingReceiptData :: "ReceiptData option"
  input :: string

section \<open>Manual assignment: handleAssignmentChange\<close>

text \<open>
  Step 1, \<open>tempSplit.forEach(person => person.items = person.items.filter(...))\<close>.
  \<open>JSON.parse(JSON.stringify(billSplit))\<close> is the identity on values of the model.
\<close>

definition removeItem :: "ReceiptItem \<Rightarrow> BillSplit \<Rightarrow> BillSplit" where
  "removeItem item tempSplit =
     map (\<lambda>person. person\<lparr>items :=
            filter (\<lambda>i. item_name i \<noteq> ReceiptItem.item_name item) (items person)\<rparr>)
         tempSplit"

definition newPerson :: "string \<Rightarrow> PersonSplit" where
  "newPerson name =
     \<lparr>person_name = name, items = [], subtotal = 0, tax = 0, tip = 0, total = 0\<rparr>"

text \<open>
  \<open>person.items.push(entry)\<close> where \<open>person\<close> is the object \<open>find\<close> returned: the
  first element of the array whose name matches is updated in place.
\<close>

fun pushItem :: "string \<Rightarrow> AssignedItem \<Rightarrow> BillSplit \<Rightarrow> BillSplit" where
  "pushItem name entry [] = []"
| "pushItem name entry (p # ps) =
     (if person_name p = name then p\<lparr>items := items p @ [entry]\<rparr> # ps
      else p # pushItem name entry ps)"

text \<open>
  The body of \<open>names.forEach\<close>: look the person up; when absent, push a fresh one to
  the end of the array (then the first match); push the entry onto that person.
\<close>

definition assignName :: "AssignedItem \<Rightarrow> BillSplit \<Rightarrow> string \<Rightarrow> BillSplit" where
  "assignName entry tempSplit name =
     (case find (\<lambda>p. person_name p = name) tempSplit of
        None \<Rightarrow> pushItem name entry (tempSplit @ [newPerson name])
      | Some person \<Rightarrow> pushItem name entry tempSplit)"

text \<open>The value \<open>finalSplit\<close> that \<open>handleAssignmentChange\<close> passes to \<open>setBillSplit\<close>.\<close>

definition finalSplit ::
  "ReceiptData option \<Rightarrow> BillSplit \<Rightarrow> ReceiptItem \<Rightarrow> string list \<Rightarrow> BillSplit" where
  "finalSplit data currentSplit item names =
     (let tempSplit1 = removeItem item currentSplit;
          tempSplit2 =
            (if length names > 0 then
               (let pricePerPerson = ReceiptItem.price item / real (length names)
                in foldl (assignName \<lparr>item_name = ReceiptItem.item_name item,
                                       price = pricePerPerson\<rparr>)
                         tempSplit1 names)
             else tempSplit1);
          tempSplit3 = filter (\<lambda>p. length (items p) > 0) tempSplit2
      in recalculateBillSplit data tempSplit3)"

text \<open>\<open>Array.prototype.join\<close>.\<close>

fun join :: "string \<Rightarrow> string list \<Rightarrow> string" where
  "join sep [] = []"
| "join sep [x] = x"
| "join sep (x # y # ys) = x @ sep @ join sep (y # ys)"

definition handleAssignmentChange :: "AppState \<Rightarrow> ReceiptItem \<Rightarrow> string list \<Rightarrow> AppState" where
  "handleAssignmentChange st item names =
     (let message =
            (if length names > 0
             then ''Manually assigned '' @ ReceiptItem.item_name item @ '' to ''
                    @ join '', '' names @ ''.''
             else ''Manually unassigned '' @ ReceiptItem.item_name item @ ''.'')
      in st\<lparr>billSplit := finalSplit (receiptData st) (billSplit st) item names,
             chatMessages := chatMessages st @ [\<lparr>sender = system, msg_text = message\<rparr>]\<rparr>)"

definition handleUnassignItem :: "AppState \<Rightarrow> ReceiptItem \<Rightarrow> AppState" where
  "handleUnassignItem st item = handleAssignmentChange st item []"

section \<open>Chat: handleSendMessage\<close>

text \<open>
  \<open>String.prototype.trim\<close> on the ASCII white space (tab, line feed, vertical tab,
  form feed, carriage return, space).
\<close>

definition isSpace :: "char \<Rightarrow> bool" where
  "isSpace c = (c \<in> {CHR 0x09, CHR 0x0A, CHR 0x0B, CHR 0x0C, CHR 0x0D, CHR '' ''})"

definition trim :: "string \<Rightarrow> string" where
  "trim s = rev (dropWhile isSpace (rev (dropWhile isSpace s)))"

text \<open>
  \<open>response\<close> is what \<open>await updateBillSplit(receiptData, billSplit, input)\<close> gave:
  \<open>Inr\<close> the array \<open>JSON.parse\<close> returned, or \<open>Inl\<close> the message of the error thrown
  (the empty message stands for a missing one). The handler stores the array with
  \<open>setBillSplit(updatedSplit)\<close>.
\<close>

definition handleSendMessage :: "string + BillSplit \<Rightarrow> AppState \<Rightarrow> AppState" where
  "handleSendMessage response st =
     (if trim (input st) = [] \<or> receiptData st = None \<or> isLoading st then st
      else
        (let st1 = st\<lparr>chatMessages :=
                         chatMessages st @ [\<lparr>sender = user, msg_text = input st\<rparr>],
                       input := [], isLoading := True, error := None\<rparr>
         in case response of
              Inr updatedSplit \<Rightarrow> st1\<lparr>billSplit := updatedSplit, isLoading := False\<rparr>
            | Inl msg \<Rightarrow>
                (let errorMessage =
                       (if msg = [] then ''An unknown error occurred.'' else msg)
                 in st1\<lparr>error := Some errorMessage,
                         chatMessages := chatMessages st1 @
                           [\<lparr>sender = system, msg_text = ''Error: '' @ errorMessage\<rparr>],
                         isLoading := False\<rparr>)))"

text \<open>The effect of \<open>ChatPanel\<close> that runs when \<open>receiptData\<close> changes.\<close>

definition chatPanelEffect :: "AppState \<Rightarrow> AppState" where
  \<open>chatPanelEffect st =
     (if receiptData st \<noteq> None \<and> length (chatMessages st) = 0 then
        st\<lparr>chatMessages := [\<lparr>sender = system, msg_text =
          ''Receipt loaded! Tell me how to split the tab. For example: "Alice had the burger" or "Bob and Carol shared the nachos".''\<rparr>]\<rparr>
      else if receiptData st = None then st\<lparr>chatMessages := []\<rparr>
      else st)\<close>

section \<open>Receipt editing\<close>

text \<open>
  The argument pair \<open>(field, value)\<close> of \<open>handleReceiptEdit\<close>: a key of
  \<open>ReceiptData\<close> with its value, or \<open>items.<index>.<key>\<close> with the index and the
  value of that key of \<open>ReceiptItem\<close>.
\<close>

datatype ReceiptEdit =
    Set_items "ReceiptItem list"
  | Set_subtotal real
  | Set_tax real
  | Set_tip real
  | Set_total real
  | Set_item_name nat string
  | Set_quantity nat real
  | Set_price nat real
  | Set_confidence_score nat real
  | Set_notes nat "string option"

datatype js_error = TypeError

text \<open>
  \<open>newData.items[index][key] = value\<close>: beyond the end of the array
  \<open>newData.items[index]\<close> is undefined and the assignment throws.
\<close>

definition setItemKey ::
  "ReceiptData \<Rightarrow> nat \<Rightarrow> (ReceiptItem \<Rightarrow> ReceiptItem) \<Rightarrow> js_error + ReceiptData" where
  "setItemKey newData index upd =
     (if index < length (ReceiptData.items newData)
      then Inr (newData\<lparr>ReceiptData.items :=
                  (ReceiptData.items newData)[index := upd (ReceiptData.items newData ! index)]\<rparr>)
      else Inl TypeError)"

fun setField :: "ReceiptData \<Rightarrow> ReceiptEdit \<Rightarrow> js_error + ReceiptData" where
  "setField newData (Set_items v) = Inr (newData\<lparr>ReceiptData.items := v\<rparr>)"
| "setField newData (Set_subtotal v) = Inr (newData\<lparr>ReceiptData.subtotal := v\<rparr>)"
| "setField newData (Set_tax v) = Inr (newData\<lparr>ReceiptData.tax := v\<rparr>)"
| "setField newData (Set_tip v) = Inr (newData\<lparr>ReceiptData.tip := v\<rparr>)"
| "setField newData (Set_total v) = Inr (newData\<lparr>ReceiptData.total := v\<rparr>)"
| "setField newData (Set_item_name index v) =
     setItemKey newData index (\<lambda>i. i\<lparr>ReceiptItem.item_name := v\<rparr>)"
| "setField newData (Set_quantity index v) =
     setItemKey newData index (\<lambda>i. i\<lparr>quantity := v\<rparr>)"
| "setField newData (Set_price index v) =
     setItemKey newData index (\<lambda>i. i\<lparr>ReceiptItem.price := v\<rparr>)"
| "setField newData (Set_confidence_score index v) =
     setItemKey newData index (\<lambda>i. i\<lparr>confidence_score := v\<rparr>)"
| "setField newData (Set_notes index v) =
     setItemKey newData index (\<lambda>i. i\<lparr>item_notes := v\<rparr>)"

text \<open>\<open>x || 0\<close> on a number: 0 when \<open>x\<close> is falsy, that is 0, else \<open>x\<close>.\<close>

definition or0 :: "real \<Rightarrow> real" where
  "or0 x = (if x = 0 then 0 else x)"

definition handleReceiptEdit :: "AppState \<Rightarrow> ReceiptEdit \<Rightarrow> js_error + AppState" where
  "handleReceiptEdit st edit =
     (case editingReceiptData st of
        None \<Rightarrow> Inr st
      | Some draft \<Rightarrow>
          (case setField draft edit of
             Inl e \<Rightarrow> Inl e
           | Inr newData \<Rightarrow>
               Inr (st\<lparr>editingReceiptData := Some (newData\<lparr>ReceiptData.total :=
                      or0 (ReceiptData.subtotal newData) + or0 (ReceiptData.tax newData)
                        + or0 (ReceiptData.tip newData)\<rparr>)\<rparr>)))"

definition newItem :: ReceiptItem where
  "newItem = \<lparr>ReceiptItem.item_name = [], quantity = 1, price = 0, confidence_score = 1,
              item_notes = Some ''Manually added''\<rparr>"

definition handleAddItem :: "AppState \<Rightarrow> js_error + AppState" where
  "handleAddItem st =
     (case editingReceiptData st of
        None \<Rightarrow> Inr st
      | Some draft \<Rightarrow> handleReceiptEdit st (Set_items (ReceiptData.items draft @ [newItem])))"

text \<open>\<open>items.filter((_, i) => i !== index)\<close>.\<close>

definition filterIndex :: "nat \<Rightarrow> 'a list \<Rightarrow> 'a list" where
  "filterIndex index xs = map snd (filter (\<lambda>(i, _). i \<noteq> index) (enumerate 0 xs))"

definition handleRemoveItem :: "AppState \<Rightarrow> nat \<Rightarrow> js_error + AppState" where
  "handleRemoveItem st index =
     (case editingReceiptData st of
        None \<Rightarrow> Inr st
      | Some draft \<Rightarrow> handleReceiptEdit st (Set_items (filterIndex index (ReceiptData.items draft))))"

text \<open>\<open>confirmed\<close> is what \<open>window.confirm\<close> returned.\<close>

definition handleSaveReceipt :: "bool \<Rightarrow> AppState \<Rightarrow> AppState" where
  "handleSaveReceipt confirmed st =
     (case editingReceiptData st of
        None \<Rightarrow> st
      | Some draft \<Rightarrow>
          if confirmed then
            st\<lparr>receiptData := Some draft,
               billSplit := [],
               chatMessages := [\<lparr>sender = system, msg_text =
                 ''Receipt updated. The bill split has been reset. Please provide new instructions.''\<rparr>],
               isReceiptEditing := False\<rparr>
          else st)"

section \<open>Observations and example values\<close>

text \<open>
  The entries recorded for an item name across a split, and those held under one
  person name.
\<close>

definition holdings :: "string \<Rightarrow> BillSplit \<Rightarrow> AssignedItem list" where
  "holdings x s = concat (map (\<lambda>p. filter (\<lambda>i. item_name i = x) (items p)) s)"

definition entriesOf :: "string \<Rightarrow> string \<Rightarrow> BillSplit \<Rightarrow> AssignedItem list" where
  "entriesOf x n s = holdings x (filter (\<lambda>p. person_name p = n) s)"

text \<open>Example values: a receipt of 100 + 10 + 5 and a person holding 10 + 15.\<close>

abbreviation (input) exReceipt :: ReceiptData where
  "exReceipt \<equiv> \<lparr>ReceiptData.items = [], subtotal = 100, tax = 10, tip = 5, total = 115\<rparr>"

abbreviation (input) exPerson :: PersonSplit where
  "exPerson \<equiv> \<lparr>person_name = ''Alice'',
      items = [\<lparr>item_name = ''Nachos'', price = 10\<rparr>, \<lparr>item_name = ''Cola'', price = 15\<rparr>],
      subtotal = 0, tax = 0, tip = 0, total = 0\<rparr>"

text \<open>The receipt of the end-to-end scenario and a state that holds it.\<close>

abbreviation (input) nachos :: ReceiptItem where
  "nachos \<equiv> \<lparr>ReceiptItem.item_name = ''Nachos'', quantity = 1, price = 15,
               confidence_score = 1, item_notes = None\<rparr>"

abbreviation (input) nachosReceipt :: ReceiptData where
  "nachosReceipt \<equiv> \<lparr>ReceiptData.items = [nachos], subtotal = 15, tax = 3 / 2, tip = 3 / 4,
                      total = 69 / 4\<rparr>"

abbreviation (input) exState :: AppState where
  "exState \<equiv> \<lparr>receiptData = Some nachosReceipt, billSplit = [], chatMessages = [],
                isLoading = False, error = None, isReceiptEditing = False,
                editingReceiptData = None, input = ''Alice had the nachos''\<rparr>"

text \<open>The draft of a state exists and its total is subtotal + tax + tip.\<close>

abbreviation (input) draftTotalDerived :: "AppState \<Rightarrow> bool" where
  "draftTotalDerived st' \<equiv>
     (\<exists>d'. editingReceiptData st' = Some d'
          \<and> ReceiptData.total d'
              = ReceiptData.subtotal d' + ReceiptData.tax d' + ReceiptData.tip d')"

text \<open>A state in the middle of an edit, with a split and a chat log.\<close>

abbreviation (input) editState :: AppState where
  "editState \<equiv> \<lparr>receiptData = Some nachosReceipt, billSplit = [exPerson],
       chatMessages = [\<lparr>sender = system, msg_text = ''Receipt loaded!''\<rparr>,
                       \<lparr>sender = user, msg_text = ''Alice had the nachos''\<rparr>],
       isLoading = False, error = None, isReceiptEditing = True,
       editingReceiptData = Some nachosReceipt, input = []\<rparr>"

section \<open>Properties of the allocation\<close>

lemma foldl_price_sum:
  "foldl (\<lambda>acc item. acc + price item) a xs = a + sum_list (map price xs)"
  by (induction xs arbitrary: a) simp_all

lemma recalculatePerson_items [simp]: "items (recalculatePerson d p) = items p"
  by (simp add: recalculatePerson_def Let_def)

lemma recalculatePerson_person_name [simp]:
  "person_name (recalculatePerson d p) = person_name p"
  by (simp add: recalculatePerson_def Let_def)

lemma recalculatePerson_idem:
  "recalculatePerson d (recalculatePerson d p) = recalculatePerson d p"
  by (simp add: recalculatePerson_def Let_def)

lemma recalculateBillSplit_items [simp]:
  "map items (recalculateBillSplit data s) = map items s"
  by (simp add: recalculateBillSplit_def comp_def split: option.splits)

lemma recalculateBillSplit_names [simp]:
  "map person_name (recalculateBillSplit data s) = map person_name s"
  by (simp add: recalculateBillSplit_def comp_def split: option.splits)

lemma recalculateBillSplit_idem:
  "recalculateBillSplit data (recalculateBillSplit data s) = recalculateBillSplit data s"
  by (simp add: recalculateBillSplit_def recalculatePerson_idem comp_def split: option.splits)

text \<open>
  C5. When the receipt's subtotal is 0, \<open>recalculateBillSplit\<close> returns its argument
  unchanged: the early return is taken and no division happens.
\<close>

theorem recalculateBillSplit_zero_subtotal:
  "ReceiptData.subtotal d = 0 \<Longrightarrow> recalculateBillSplit (Some d) split = split"
  by (simp add: recalculateBillSplit_def)

theorem recalculateBillSplit_zero_subtotal_witness:
  "ReceiptData.subtotal \<lparr>ReceiptData.items = [], subtotal = 0, tax = 3, tip = 2, total = 5\<rparr> = 0
   \<and> recalculateBillSplit
        (Some \<lparr>ReceiptData.items = [], subtotal = 0, tax = 3, tip = 2, total = 5\<rparr>)
        [\<lparr>person_name = ''Alice'', items = [\<lparr>item_name = ''Nachos'', price = 15\<rparr>],
          subtotal = 1, tax = 2, tip = 3, total = 4\<rparr>]
      = [\<lparr>person_name = ''Alice'', items = [\<lparr>item_name = ''Nachos'', price = 15\<rparr>],
          subtotal = 1, tax = 2, tip = 3, total = 4\<rparr>]"
  using recalculateBillSplit_zero_subtotal
    [of "\<lparr>ReceiptData.items = [], subtotal = 0, tax = 3, tip = 2, total = 5\<rparr>"
        "[\<lparr>person_name = ''Alice'', items = [\<lparr>item_name = ''Nachos'', price = 15\<rparr>],
          subtotal = 1, tax = 2, tip = 3, total = 4\<rparr>]"]
  by simp

text \<open>
  C6. With a nonzero receipt subtotal, \<open>recalculateBillSplit\<close> gives each person
  (position \<open>i\<close> of the split) the sum \<open>s\<close> of the assigned price portions as subtotal,
  \<open>receipt.tax * (s / receipt.subtotal)\<close> as tax, \<open>receipt.tip * (s / receipt.subtotal)\<close>
  as tip, and subtotal + tax + tip as total; for a receipt of subtotal 100, tax 10, tip 5
  and portions that sum to 25 this is tax 2.5, tip 1.25 and total 28.75.
\<close>

theorem recalculateBillSplit_proportional:
  assumes "ReceiptData.subtotal d \<noteq> 0"
    and "i < length split"
    and "q = recalculateBillSplit (Some d) split ! i"
    and "s = sum_list (map price (items (split ! i)))"
  shows "subtotal q = s
       \<and> tax q = ReceiptData.tax d * (s / ReceiptData.subtotal d)
       \<and> tip q = ReceiptData.tip d * (s / ReceiptData.subtotal d)
       \<and> total q = subtotal q + tax q + tip q
       \<and> (ReceiptData.subtotal d = 100 \<and> ReceiptData.tax d = 10 \<and> ReceiptData.tip d = 5 \<and> s = 25
            \<longrightarrow> tax q = 5 / 2 \<and> tip q = 5 / 4 \<and> total q = 115 / 4)"
proof -
  from assms(1,2,3) have q: "q = recalculatePerson d (split ! i)"
    by (simp add: recalculateBillSplit_def)
  have "foldl (\<lambda>acc item. acc + price item) 0 (items (split ! i)) = s"
    using assms(4) by (simp add: foldl_price_sum)
  then have fields: "subtotal q = s"
      "tax q = ReceiptData.tax d * (s / ReceiptData.subtotal d)"
      "tip q = ReceiptData.tip d * (s / ReceiptData.subtotal d)"
      "total q = subtotal q + tax q + tip q"
    unfolding q by (simp_all add: recalculatePerson_def Let_def)
  then show ?thesis by simp
qed

theorem recalculateBillSplit_proportional_witness:
  "ReceiptData.subtotal exReceipt \<noteq> 0
   \<and> (0::nat) < length [exPerson]
   \<and> sum_list (map price (items ([exPerson] ! 0))) = 25
   \<and> subtotal (recalculateBillSplit (Some exReceipt) [exPerson] ! 0) = 25
   \<and> tax (recalculateBillSplit (Some exReceipt) [exPerson] ! 0) = 5 / 2
   \<and> tip (recalculateBillSplit (Some exReceipt) [exPerson] ! 0) = 5 / 4
   \<and> total (recalculateBillSplit (Some exReceipt) [exPerson] ! 0) = 115 / 4"
  using recalculateBillSplit_proportional
    [of exReceipt 0 "[exPerson]" "recalculateBillSplit (Some exReceipt) [exPerson] ! 0" 25]
  by simp

text \<open>
  C10. With a nonzero receipt subtotal, \<open>recalculateBillSplit\<close> keeps the number and
  order of the persons, every person's name and every person's assigned items; each
  result entry is the input entry with only subtotal, tax, tip and total replaced.
\<close>

theorem recalculateBillSplit_frame:
  assumes "ReceiptData.subtotal d \<noteq> 0"
  shows "length (recalculateBillSplit (Some d) split) = length split
       \<and> map person_name (recalculateBillSplit (Some d) split) = map person_name split
       \<and> map items (recalculateBillSplit (Some d) split) = map items split
       \<and> (\<forall>i < length split. \<exists>a b c e.
             recalculateBillSplit (Some d) split ! i
               = (split ! i)\<lparr>subtotal := a, tax := b, tip := c, total := e\<rparr>)"
  using assms by (auto simp add: recalculateBillSplit_def recalculatePerson_def Let_def)

theorem recalculateBillSplit_frame_witness:
  "ReceiptData.subtotal exReceipt \<noteq> 0
   \<and> length (recalculateBillSplit (Some exReceipt) [exPerson]) = 1
   \<and> map person_name (recalculateBillSplit (Some exReceipt) [exPerson]) = [''Alice'']
   \<and> map items (recalculateBillSplit (Some exReceipt) [exPerson])
       = [[\<lparr>item_name = ''Nachos'', price = 10\<rparr>, \<lparr>item_name = ''Cola'', price = 15\<rparr>]]"
  using recalculateBillSplit_frame [of exReceipt "[exPerson]"]
  by simp

section \<open>Properties of manual assignment\<close>

lemma holdings_Nil [simp]: "holdings x [] = []"
  by (simp add: holdings_def)

lemma holdings_Cons [simp]:
  "holdings x (p # s) = filter (\<lambda>i. item_name i = x) (items p) @ holdings x s"
  by (simp add: holdings_def)

lemma holdings_append [simp]: "holdings x (s @ t) = holdings x s @ holdings x t"
  by (simp add: holdings_def)

lemma holdings_removeItem: "holdings (ReceiptItem.item_name item) (removeItem item s) = []"
  by (induction s) (simp_all add: removeItem_def)

lemma holdings_pushItem:
  assumes "item_name e = x"
  shows "mset (holdings x (pushItem name e s))
       = (if \<exists>p \<in> set s. person_name p = name then add_mset e (mset (holdings x s))
          else mset (holdings x s))"
  using assms by (induction s) auto

lemma assignName_cases:
  "assignName e s name
   = (if \<exists>p \<in> set s. person_name p = name then pushItem name e s
      else pushItem name e (s @ [newPerson name]))"
proof (cases "find (\<lambda>p. person_name p = name) s")
  case None
  then have "\<not> (\<exists>p \<in> set s. person_name p = name)"
    by (simp add: find_None_iff)
  with None show ?thesis by (simp add: assignName_def)
next
  case (Some q)
  then have "\<exists>p \<in> set s. person_name p = name"
    using find_None_iff [of "\<lambda>p. person_name p = name" s] by auto
  with Some show ?thesis by (simp add: assignName_def)
qed

lemma person_name_newPerson [simp]: "person_name (newPerson name) = name"
  by (simp add: newPerson_def)

lemma items_newPerson [simp]: "items (newPerson name) = []"
  by (simp add: newPerson_def)

lemma holdings_assignName:
  assumes "item_name e = x"
  shows "mset (holdings x (assignName e s name)) = add_mset e (mset (holdings x s))"
  using assms by (simp add: assignName_cases holdings_pushItem)

lemma holdings_foldl_assignName:
  assumes "item_name e = x"
  shows "mset (holdings x (foldl (assignName e) s names))
       = mset (holdings x s) + replicate_mset (length names) e"
  using assms by (induction names arbitrary: s) (simp_all add: holdings_assignName)

lemma holdings_filter_nonempty:
  "holdings x (filter (\<lambda>p. items p \<noteq> []) s) = holdings x s"
  by (induction s) simp_all

lemma holdings_recalculateBillSplit:
  "holdings x (recalculateBillSplit data s) = holdings x s"
proof -
  have "holdings x t = concat (map (filter (\<lambda>i. item_name i = x)) (map items t))" for t
    by (simp add: holdings_def comp_def)
  then show ?thesis by (simp only: recalculateBillSplit_items)
qed

lemma finalSplit_unfold:
  "finalSplit data s item names
   = recalculateBillSplit data (filter (\<lambda>p. items p \<noteq> [])
       (foldl (assignName \<lparr>item_name = ReceiptItem.item_name item,
                            price = ReceiptItem.price item / real (length names)\<rparr>)
              (removeItem item s) names))"
  by (cases names) (simp_all add: finalSplit_def Let_def)

lemma holdings_finalSplit:
  "mset (holdings (ReceiptItem.item_name item) (finalSplit data s item names))
   = replicate_mset (length names)
       \<lparr>item_name = ReceiptItem.item_name item,
        price = ReceiptItem.price item / real (length names)\<rparr>"
  unfolding finalSplit_unfold
  by (simp only: holdings_recalculateBillSplit holdings_filter_nonempty)
     (simp add: holdings_foldl_assignName holdings_removeItem)

lemma replicate_of_mset:
  assumes "mset xs = replicate_mset k e"
  shows "xs = replicate k e"
proof -
  from assms have "set_mset (mset xs) \<subseteq> {e}" by (simp split: if_splits)
  then have "\<forall>y \<in> set xs. y = e" by auto
  moreover from assms have "size (mset xs) = k" by simp
  then have "length xs = k" by simp
  ultimately show ?thesis by (simp add: replicate_eqI)
qed

lemma filter_name_pushItem:
  "filter (\<lambda>p. person_name p = n) (pushItem name e s)
   = (if n = name then pushItem name e (filter (\<lambda>p. person_name p = n) s)
      else filter (\<lambda>p. person_name p = n) s)"
  by (induction s) auto

lemma find_filter_name:
  "find (\<lambda>p. person_name p = n) (filter (\<lambda>p. person_name p = n) s)
   = find (\<lambda>p. person_name p = n) s"
  by (induction s) auto

lemma filter_name_assignName:
  "filter (\<lambda>p. person_name p = n) (assignName e s name)
   = (if n = name then assignName e (filter (\<lambda>p. person_name p = n) s) name
      else filter (\<lambda>p. person_name p = n) s)"
  by (auto simp add: assignName_cases filter_name_pushItem)

lemma filter_name_foldl_assignName:
  "filter (\<lambda>p. person_name p = n) (foldl (assignName e) s names)
   = foldl (assignName e) (filter (\<lambda>p. person_name p = n) s) (filter (\<lambda>m. m = n) names)"
  by (induction names arbitrary: s) (auto simp add: filter_name_assignName)

lemma filter_name_removeItem:
  "filter (\<lambda>p. person_name p = n) (removeItem item s)
   = removeItem item (filter (\<lambda>p. person_name p = n) s)"
  by (induction s) (simp_all add: removeItem_def)

lemma filter_name_recalculateBillSplit:
  "filter (\<lambda>p. person_name p = n) (recalculateBillSplit data s)
   = recalculateBillSplit data (filter (\<lambda>p. person_name p = n) s)"
  by (simp add: recalculateBillSplit_def filter_map comp_def split: option.splits)

lemma length_filter_eq_count_list: "length (filter (\<lambda>m. m = n) names) = count_list names n"
  by (induction names) auto

lemma filter_name_nonempty:
  "filter (\<lambda>p. person_name p = n) (filter (\<lambda>p. items p \<noteq> []) t)
   = filter (\<lambda>p. items p \<noteq> []) (filter (\<lambda>p. person_name p = n) t)"
  by (induction t) simp_all

lemma entriesOf_finalSplit:
  "mset (entriesOf (ReceiptItem.item_name item) n (finalSplit data s item names))
   = replicate_mset (count_list names n)
       \<lparr>item_name = ReceiptItem.item_name item,
        price = ReceiptItem.price item / real (length names)\<rparr>"
  unfolding finalSplit_unfold entriesOf_def
  by (simp only: filter_name_recalculateBillSplit holdings_recalculateBillSplit
        filter_name_nonempty holdings_filter_nonempty filter_name_foldl_assignName
        filter_name_removeItem)
     (simp add: holdings_foldl_assignName holdings_removeItem length_filter_eq_count_list)

lemma recalculateBillSplit_items_set:
  "items ` set (recalculateBillSplit data s) = items ` set s"
  using recalculateBillSplit_items [of data s] by (metis set_map)

lemma finalSplit_nonempty:
  assumes "p \<in> set (finalSplit data s item names)"
  shows "items p \<noteq> []"
proof -
  obtain t where fs: "finalSplit data s item names
      = recalculateBillSplit data (filter (\<lambda>p. items p \<noteq> []) t)"
    by (simp add: finalSplit_def Let_def)
  from assms have "items p \<in> items ` set (finalSplit data s item names)" by simp
  then have "items p \<in> items ` set (filter (\<lambda>p. items p \<noteq> []) t)"
    unfolding fs recalculateBillSplit_items_set .
  then show ?thesis by auto
qed

text \<open>
  C3 (as amended). After \<open>handleAssignmentChange\<close>, with any list of names (the empty
  list included), no person of the resulting split has an empty list of assigned items.
  \<open>handleSendMessage\<close> stores the external proposal as it is, so the same does not hold
  after a merge: the counterexample stores a proposal whose only person holds nothing.
\<close>

theorem handleAssignmentChange_no_orphans:
  "\<forall>p \<in> set (billSplit (handleAssignmentChange st item names)). items p \<noteq> []"
  by (simp add: handleAssignmentChange_def Let_def finalSplit_nonempty)

theorem handleAssignmentChange_no_orphans_witness:
  "\<lparr>person_name = ''Alice'', items = [\<lparr>item_name = ''Nachos'', price = 15\<rparr>],
     subtotal = 15, tax = 3 / 2, tip = 3 / 4, total = 69 / 4\<rparr>
     \<in> set (billSplit (handleAssignmentChange exState nachos [''Alice'']))
   \<and> items \<lparr>person_name = ''Alice'', items = [\<lparr>item_name = ''Nachos'', price = 15\<rparr>],
     subtotal = 15, tax = 3 / 2, tip = 3 / 4, total = 69 / 4\<rparr> \<noteq> []"
proof -
  have mem: "\<lparr>person_name = ''Alice'', items = [\<lparr>item_name = ''Nachos'', price = 15\<rparr>],
     subtotal = 15, tax = 3 / 2, tip = 3 / 4, total = 69 / 4\<rparr>
     \<in> set (billSplit (handleAssignmentChange exState nachos [''Alice'']))"
    by (simp add: handleAssignmentChange_def finalSplit_def removeItem_def assignName_def
        newPerson_def recalculateBillSplit_def recalculatePerson_def Let_def)
  from handleAssignmentChange_no_orphans [of exState nachos "[''Alice'']"] mem
  show ?thesis by blast
qed

theorem handleSendMessage_orphan_counterexample:
  "billSplit (handleSendMessage
      (Inr [\<lparr>person_name = ''Bob'', items = [], subtotal = 0, tax = 0, tip = 0, total = 0\<rparr>])
      exState)
   = [\<lparr>person_name = ''Bob'', items = [], subtotal = 0, tax = 0, tip = 0, total = 0\<rparr>]
   \<and> items (hd (billSplit (handleSendMessage
      (Inr [\<lparr>person_name = ''Bob'', items = [], subtotal = 0, tax = 0, tip = 0, total = 0\<rparr>])
      exState))) = []"
  by (simp add: handleSendMessage_def trim_def isSpace_def Let_def)

lemma billSplit_handleAssignmentChange:
  "billSplit (handleAssignmentChange st item names)
   = finalSplit (receiptData st) (billSplit st) item names"
  by (simp add: handleAssignmentChange_def Let_def)

lemma receiptData_handleAssignmentChange:
  "receiptData (handleAssignmentChange st item names) = receiptData st"
  by (simp add: handleAssignmentChange_def Let_def)

text \<open>
  C2. For a non-empty list of names, the entries recorded for the item across the split
  that \<open>handleAssignmentChange\<close> produces are exactly one entry per listed name, each
  of \<open>item.price / names.length\<close>, and their price portions sum to the item's price.
\<close>

theorem handleAssignmentChange_conservation:
  assumes "names \<noteq> []"
  shows "holdings (ReceiptItem.item_name item) (billSplit (handleAssignmentChange st item names))
         = replicate (length names)
             \<lparr>item_name = ReceiptItem.item_name item,
              price = ReceiptItem.price item / real (length names)\<rparr>
       \<and> sum_list (map price
            (holdings (ReceiptItem.item_name item)
               (billSplit (handleAssignmentChange st item names))))
         = ReceiptItem.price item"
proof -
  let ?h = "holdings (ReceiptItem.item_name item)
              (billSplit (handleAssignmentChange st item names))"
  let ?e = "\<lparr>item_name = ReceiptItem.item_name item,
             price = ReceiptItem.price item / real (length names)\<rparr>"
  have h: "?h = replicate (length names) ?e"
    unfolding billSplit_handleAssignmentChange
    by (rule replicate_of_mset) (rule holdings_finalSplit)
  have "sum_list (map price (replicate (length names) ?e))
      = real (length names) * (ReceiptItem.price item / real (length names))"
    by (simp add: sum_list_replicate)
  also have "\<dots> = ReceiptItem.price item"
    using assms by simp
  finally show ?thesis using h by simp
qed

theorem handleAssignmentChange_conservation_witness:
  "[''Alice'', ''Bob'', ''Charlie''] \<noteq> []
   \<and> holdings ''Nachos''
        (billSplit (handleAssignmentChange exState nachos [''Alice'', ''Bob'', ''Charlie'']))
      = [\<lparr>item_name = ''Nachos'', price = 5\<rparr>, \<lparr>item_name = ''Nachos'', price = 5\<rparr>,
         \<lparr>item_name = ''Nachos'', price = 5\<rparr>]
   \<and> sum_list (map price (holdings ''Nachos''
        (billSplit (handleAssignmentChange exState nachos [''Alice'', ''Bob'', ''Charlie'']))))
      = 15"
  using handleAssignmentChange_conservation
    [of "[''Alice'', ''Bob'', ''Charlie'']" nachos exState]
  by (simp add: numeral_3_eq_3)

text \<open>
  C4 (as amended). \<open>handleAssignmentChange\<close> does not collapse duplicate names: the
  entries for the item held under a person name \<open>n\<close> are one per occurrence of \<open>n\<close> in
  the list, each of \<open>item.price / names.length\<close> (the length counts duplicates). The
  counterexample names Alice twice and leaves her with two entries of half the price.
\<close>

theorem handleAssignmentChange_entries_per_occurrence:
  "entriesOf (ReceiptItem.item_name item) n (billSplit (handleAssignmentChange st item names))
   = replicate (count_list names n)
       \<lparr>item_name = ReceiptItem.item_name item,
        price = ReceiptItem.price item / real (length names)\<rparr>"
  unfolding billSplit_handleAssignmentChange
  by (rule replicate_of_mset) (rule entriesOf_finalSplit)

theorem handleAssignmentChange_duplicates_counterexample:
  "billSplit (handleAssignmentChange exState nachos [''Alice'', ''Alice''])
   = [\<lparr>person_name = ''Alice'',
       items = [\<lparr>item_name = ''Nachos'', price = 15 / 2\<rparr>,
                \<lparr>item_name = ''Nachos'', price = 15 / 2\<rparr>],
       subtotal = 15, tax = 3 / 2, tip = 3 / 4, total = 69 / 4\<rparr>]
   \<and> entriesOf ''Nachos'' ''Alice''
        (billSplit (handleAssignmentChange exState nachos [''Alice'', ''Alice'']))
     = [\<lparr>item_name = ''Nachos'', price = 15 / 2\<rparr>, \<lparr>item_name = ''Nachos'', price = 15 / 2\<rparr>]"
  by (simp add: handleAssignmentChange_def finalSplit_def removeItem_def assignName_def
      newPerson_def recalculateBillSplit_def recalculatePerson_def Let_def entriesOf_def)

lemma removeItem_fixed:
  assumes "\<forall>p \<in> set r. \<forall>i \<in> set (items p). item_name i \<noteq> ReceiptItem.item_name item"
  shows "removeItem item r = r"
proof -
  have "p\<lparr>items := filter (\<lambda>i. item_name i \<noteq> ReceiptItem.item_name item) (items p)\<rparr> = p"
    if "p \<in> set r" for p
  proof -
    from that assms
    have "filter (\<lambda>i. item_name i \<noteq> ReceiptItem.item_name item) (items p) = items p"
      by (simp add: filter_id_conv)
    then show ?thesis by simp
  qed
  then show ?thesis unfolding removeItem_def by (simp add: map_idI)
qed

lemma finalSplit_Nil:
  "finalSplit data s item []
   = recalculateBillSplit data (filter (\<lambda>p. items p \<noteq> []) (removeItem item s))"
  by (simp add: finalSplit_def Let_def)

lemma finalSplit_Nil_clean:
  assumes "p \<in> set (finalSplit data s item [])" and "i \<in> set (items p)"
  shows "item_name i \<noteq> ReceiptItem.item_name item"
proof -
  from assms(1) have "items p \<in> items ` set (finalSplit data s item [])" by simp
  then have "items p \<in> items ` set (removeItem item s)"
    unfolding finalSplit_Nil recalculateBillSplit_items_set by auto
  then have "\<exists>xs. items p
      = filter (\<lambda>i. item_name i \<noteq> ReceiptItem.item_name item) xs"
    by (auto simp add: removeItem_def)
  with assms(2) show ?thesis by auto
qed

lemma finalSplit_Nil_idem:
  "finalSplit data (finalSplit data s item []) item [] = finalSplit data s item []"
proof -
  let ?r = "finalSplit data s item []"
  have 1: "removeItem item ?r = ?r"
    by (rule removeItem_fixed) (blast dest: finalSplit_Nil_clean)
  have 2: "filter (\<lambda>p. items p \<noteq> []) ?r = ?r"
    by (simp add: filter_id_conv finalSplit_nonempty)
  have 3: "recalculateBillSplit data ?r = ?r"
    unfolding finalSplit_Nil by (rule recalculateBillSplit_idem)
  show ?thesis
    by (subst finalSplit_Nil) (simp only: 1 2 3)
qed

text \<open>
  C7. Unassigning an item twice (\<open>handleAssignmentChange\<close> with the empty list of
  names) gives the same split as unassigning it once.
\<close>

theorem handleAssignmentChange_unassign_idempotent:
  "billSplit (handleAssignmentChange (handleAssignmentChange st item []) item [])
   = billSplit (handleAssignmentChange st item [])
   \<and> billSplit (handleUnassignItem (handleUnassignItem st item) item)
     = billSplit (handleUnassignItem st item)"
  by (simp only: handleUnassignItem_def billSplit_handleAssignmentChange
      receiptData_handleAssignmentChange finalSplit_Nil_idem)

section \<open>Properties of the chat merge\<close>

text \<open>
  C1 (as amended). When a message is sent (non-blank input, a receipt loaded, no call in
  flight) and the external call returns a parsed proposal, the BillSplit stored is the
  proposal itself, money fields included: \<open>handleSendMessage\<close> does not apply
  \<open>recalculateBillSplit\<close>. The counterexample is a proposal whose money fields are all 0
  and are stored as such, where the recomputation would give 25, 2.5, 1.25 and 28.75.
\<close>

theorem handleSendMessage_stores_proposal:
  assumes "trim (input st) \<noteq> []" and "receiptData st \<noteq> None" and "\<not> isLoading st"
  shows "billSplit (handleSendMessage (Inr proposal) st) = proposal"
  using assms by (auto simp add: handleSendMessage_def Let_def)

theorem handleSendMessage_stores_proposal_witness:
  "trim (input exState) \<noteq> [] \<and> receiptData exState \<noteq> None \<and> \<not> isLoading exState
   \<and> billSplit (handleSendMessage (Inr [exPerson]) exState) = [exPerson]"
proof -
  have t: "trim (input exState) \<noteq> []"
    by (simp add: trim_def isSpace_def)
  from handleSendMessage_stores_proposal [of exState "[exPerson]"] t
  show ?thesis by simp
qed

theorem handleSendMessage_no_recompute_counterexample:
  "billSplit (handleSendMessage (Inr [exPerson]) exState)
   \<noteq> recalculateBillSplit (receiptData exState) [exPerson]"
  by (simp add: handleSendMessage_def trim_def isSpace_def Let_def
      recalculateBillSplit_def recalculatePerson_def)

section \<open>Properties of receipt editing\<close>

lemma or0_id [simp]: "or0 x = x"
  by (simp add: or0_def)

lemma handleReceiptEdit_total:
  assumes "editingReceiptData st = Some d" and "handleReceiptEdit st e = Inr st'"
  shows "draftTotalDerived st'"
  using assms by (auto simp add: handleReceiptEdit_def split: sum.splits)

lemma handleReceiptEdit_Set_items:
  assumes "editingReceiptData st = Some d"
  shows "\<exists>st'. handleReceiptEdit st (Set_items v) = Inr st'"
  using assms by (simp add: handleReceiptEdit_def)

text \<open>
  C9. While a draft exists, every edit that \<open>handleReceiptEdit\<close> applies (an item's
  name, quantity or price, the item list, subtotal, tax or tip, and even a write to
  \<open>total\<close> itself), and every \<open>handleAddItem\<close> and \<open>handleRemoveItem\<close>, leaves a draft
  whose total is subtotal + tax + tip.
\<close>

theorem draft_total_derived:
  assumes "editingReceiptData st = Some d"
  shows "(\<forall>st'. handleReceiptEdit st e = Inr st' \<longrightarrow> draftTotalDerived st')
       \<and> (\<exists>st'. handleAddItem st = Inr st' \<and> draftTotalDerived st')
       \<and> (\<exists>st'. handleRemoveItem st index = Inr st' \<and> draftTotalDerived st')"
proof (intro conjI allI impI)
  fix st' assume "handleReceiptEdit st e = Inr st'"
  with assms show "draftTotalDerived st'" by (rule handleReceiptEdit_total)
next
  from assms obtain st' where
    "handleReceiptEdit st (Set_items (ReceiptData.items d @ [newItem])) = Inr st'"
    using handleReceiptEdit_Set_items by blast
  with assms show "\<exists>st'. handleAddItem st = Inr st' \<and> draftTotalDerived st'"
    using handleReceiptEdit_total [OF assms] by (auto simp add: handleAddItem_def)
next
  from assms obtain st' where
    "handleReceiptEdit st (Set_items (filterIndex index (ReceiptData.items d))) = Inr st'"
    using handleReceiptEdit_Set_items by blast
  with assms show "\<exists>st'. handleRemoveItem st index = Inr st' \<and> draftTotalDerived st'"
    using handleReceiptEdit_total [OF assms] by (auto simp add: handleRemoveItem_def)
qed

theorem draft_total_derived_witness:
  "editingReceiptData editState = Some nachosReceipt
   \<and> handleReceiptEdit editState (Set_tax 3)
       = Inr (editState\<lparr>editingReceiptData :=
           Some \<lparr>ReceiptData.items = [nachos], subtotal = 15, tax = 3, tip = 3 / 4,
                 total = 75 / 4\<rparr>\<rparr>)
   \<and> draftTotalDerived (editState\<lparr>editingReceiptData :=
           Some \<lparr>ReceiptData.items = [nachos], subtotal = 15, tax = 3, tip = 3 / 4,
                 total = 75 / 4\<rparr>\<rparr>)"
proof -
  have r: "handleReceiptEdit editState (Set_tax 3)
       = Inr (editState\<lparr>editingReceiptData :=
           Some \<lparr>ReceiptData.items = [nachos], subtotal = 15, tax = 3, tip = 3 / 4,
                 total = 75 / 4\<rparr>\<rparr>)"
    by (simp add: handleReceiptEdit_def or0_def)
  from draft_total_derived [of editState nachosReceipt "Set_tax 3" 0] r
  show ?thesis by simp
qed

text \<open>
  C8. With a draft and a confirmed dialog, \<open>handleSaveReceipt\<close> makes the draft the
  receipt, empties the BillSplit and sets the chat log to the single system notice,
  whatever the split and log were (the chat panel's effect on the new receipt keeps
  that log); with a declined dialog the state is unchanged.
\<close>

theorem handleSaveReceipt_commit_cascade:
  assumes "editingReceiptData st = Some draft"
  shows "receiptData (handleSaveReceipt True st) = Some draft
       \<and> billSplit (handleSaveReceipt True st) = []
       \<and> chatMessages (handleSaveReceipt True st)
           = [\<lparr>sender = system, msg_text =
               ''Receipt updated. The bill split has been reset. Please provide new instructions.''\<rparr>]
       \<and> chatPanelEffect (handleSaveReceipt True st) = handleSaveReceipt True st
       \<and> handleSaveReceipt False st = st"
  using assms by (simp add: handleSaveReceipt_def chatPanelEffect_def)


theorem handleSaveReceipt_commit_cascade_witness:
  "editingReceiptData editState = Some nachosReceipt
   \<and> receiptData (handleSaveReceipt True editState) = Some nachosReceipt
   \<and> billSplit (handleSaveReceipt True editState) = []
   \<and> chatMessages (handleSaveReceipt True editState)
       = [\<lparr>sender = system, msg_text =
           ''Receipt updated. The bill split has been reset. Please provide new instructions.''\<rparr>]
   \<and> handleSaveReceipt False editState = editState"
  using handleSaveReceipt_commit_cascade [of editState nachosReceipt]
  by simp

end
